theory Spec2Isabelle
  imports Complex_Main
begin

section \<open>Numbers of the Python snippets\<close>

text \<open>
  The inventory functions of the workflow document (\<open>calculate_reorder_point\<close>,
  \<open>calculate_eoq\<close>, \<open>get_forecast\<close>) compute on Python and numpy floats. The
  embedding takes the exact real number for every finite float: rounding and overflow are
  left out, while the values that are no real number (nan, inf, a complex result) and the
  exceptions are kept as constructors of their own.
\<close>

datatype error =
    ZeroDivisionError
  | HTTPException nat
  | InvalidCostParametersError
  | InputValidationError
  | InsufficientHorizonError
  | HorizonMismatchError
  | NoViableForecastError

text \<open>
  \<open>ZeroDivisionError\<close> is what Python raises on a float division by zero, and
  \<open>HTTPException\<close> (with its status code) is what \<open>get_forecast\<close> raises. The other
  errors are the ones the specification names; no function of the source constructs them,
  and only the operations modelled from the specification return them.
\<close>

datatype pynum = PyFloat real | PyComplex complex

text \<open>
  \<open>x ** 0.5\<close> on a Python float: the square root for \<open>x \<ge> 0\<close>; for a negative base
  and a fractional exponent Python 3 returns a complex number (the principal root).
\<close>

definition py_pow_half :: "real \<Rightarrow> pynum" where
  "py_pow_half x = (if x < 0 then PyComplex (Complex 0 (sqrt (- x))) else PyFloat (sqrt x))"

text \<open>\<open>a / b\<close> on Python floats raises on a zero divisor.\<close>

definition py_truediv :: "real \<Rightarrow> real \<Rightarrow> error + real" where
  "py_truediv a b = (if b = 0 then Inl ZeroDivisionError else Inr (a / b))"

section \<open>Economic order quantity\<close>

text \<open>
  \<^verbatim>\<open>
  def calculate_eoq(annual_demand, ordering_cost, holding_cost_percentage, unit_cost):
      holding_cost = holding_cost_percentage * unit_cost
      eoq = (2 * annual_demand * ordering_cost / holding_cost) ** 0.5
      return eoq
  \<close>
\<close>

definition calculate_eoq :: "real \<Rightarrow> real \<Rightarrow> real \<Rightarrow> real \<Rightarrow> error + pynum" where
  "calculate_eoq annual_demand ordering_cost holding_cost_percentage unit_cost =
     (let holding_cost = holding_cost_percentage * unit_cost
      in case py_truediv (2 * annual_demand * ordering_cost) holding_cost of
           Inl e \<Rightarrow> Inl e
         | Inr q \<Rightarrow> Inr (py_pow_half q))"

section \<open>Reorder point\<close>

text \<open>
  A numpy float64: a finite value, an infinity or nan. numpy arithmetic raises nothing; a
  division by zero yields an infinity or nan.
\<close>

datatype npfloat = Fin real | PosInf | NegInf | NaN

definition mean_of :: "real list \<Rightarrow> real" where
  "mean_of xs = sum_list xs / real (length xs)"

text \<open>\<open>ndarray.mean()\<close> and \<open>Series.mean()\<close>: nan on an empty array.\<close>

definition np_mean :: "real list \<Rightarrow> npfloat" where
  "np_mean xs = (if xs = [] then NaN else Fin (mean_of xs))"

text \<open>
  \<open>ndarray.std()\<close> with numpy's default \<open>ddof=0\<close>:
  \<open>sqrt(mean(abs(x - x.mean())**2))\<close>, nan on an empty array.
\<close>

definition np_std :: "real list \<Rightarrow> npfloat" where
  "np_std xs =
     (if xs = [] then NaN
      else Fin (sqrt (mean_of (map (\<lambda>x. \<bar>x - mean_of xs\<bar>\<^sup>2) xs))))"

text \<open>
  \<^verbatim>\<open>
  def calculate_reorder_point(forecast, lead_time, safety_stock_factor=1.5):
      avg_daily_demand = forecast[:lead_time].mean()
      std_demand = forecast[:lead_time].std()
      safety_stock = safety_stock_factor * std_demand * (lead_time ** 0.5)
      reorder_point = (avg_daily_demand * lead_time) + safety_stock
      return reorder_point
  \<close>
  \<open>forecast\<close> is a numpy array (the caller passes \<open>.values\<close>) and \<open>lead_time\<close> a
  number of days, here a natural number, so that \<open>forecast[:lead_time]\<close> is \<open>take\<close>.
  A nan of the mean or of the deviation makes every later product and sum nan.
\<close>

definition calculate_reorder_point :: "real list \<Rightarrow> nat \<Rightarrow> real \<Rightarrow> npfloat" where
  "calculate_reorder_point forecast lead_time safety_stock_factor =
     (case (np_mean (take lead_time forecast), np_std (take lead_time forecast)) of
        (Fin avg_daily_demand, Fin std_demand) \<Rightarrow>
          (let safety_stock = safety_stock_factor * std_demand * sqrt (real lead_time)
           in Fin (avg_daily_demand * real lead_time + safety_stock))
      | _ \<Rightarrow> NaN)"

definition default_safety_stock_factor :: real where
  "default_safety_stock_factor = 15 / 10"

text \<open>
  The reorder point in the specification's words, for comparison: the sample standard
  deviation (N - 1 denominator), 0 on a single-point window.
\<close>

definition sample_std :: "real list \<Rightarrow> real" where
  "sample_std xs =
     (if length xs \<le> 1 then 0
      else sqrt (sum_list (map (\<lambda>x. (x - mean_of xs)\<^sup>2) xs) / real (length xs - 1)))"

definition spec_reorder_point :: "real list \<Rightarrow> nat \<Rightarrow> real \<Rightarrow> real" where
  "spec_reorder_point forecast lead_time_days safety_factor =
     mean_of (take lead_time_days forecast) * real lead_time_days
       + safety_factor * sample_std (take lead_time_days forecast) * sqrt (real lead_time_days)"

text \<open>The population standard deviation (N denominator).\<close>

definition population_std :: "real list \<Rightarrow> real" where
  "population_std xs = sqrt (sum_list (map (\<lambda>x. (x - mean_of xs)\<^sup>2) xs) / real (length xs))"

section \<open>The forecast endpoint\<close>

text \<open>
  \<open>get_forecast\<close> after the Prophet model has predicted: \<open>inventory_level\<close> is the
  column \<open>product_data['Inventory Level']\<close>, \<open>forecast\<close> the rows of
  \<open>model.predict(future)\<close>, and \<open>forecast_days\<close> the requested horizon.
  \<^verbatim>\<open>
  if len(product_data) == 0:
      raise HTTPException(status_code=404, detail="Product or store not found")
  ...
  latest_inventory = product_data['Inventory Level'].iloc[-1]
  average_daily_demand = forecast['yhat'].tail(request.forecast_days).mean()
  lead_time = 7  # Example lead time in days
  reorder_point = calculate_reorder_point(
      forecast['yhat'].tail(request.forecast_days).values, lead_time)
  response = {
      "forecast": forecast[['ds', 'yhat', 'yhat_lower', 'yhat_upper']]
                    .tail(request.forecast_days).to_dict('records'),
      "current_inventory": float(latest_inventory),
      "average_daily_demand": float(average_daily_demand),
      "reorder_point": float(reorder_point),
      "days_until_stockout": float(latest_inventory / average_daily_demand)
                             if average_daily_demand > 0 else float('inf')
  }
  \<close>
  The whole body is inside \<open>try\<close> with \<open>except Exception as e: raise
  HTTPException(status_code=500, ...)\<close>, which also catches the 404 raised above.
\<close>

record forecast_row =
  ds :: nat
  yhat :: real
  yhat_lower :: real
  yhat_upper :: real

definition pd_tail :: "nat \<Rightarrow> 'a list \<Rightarrow> 'a list" where
  "pd_tail n xs = drop (length xs - n) xs"

text \<open>\<open>a > 0\<close> on a float: false on nan.\<close>

definition np_gt_zero :: "npfloat \<Rightarrow> bool" where
  "np_gt_zero a = (case a of Fin x \<Rightarrow> 0 < x | PosInf \<Rightarrow> True | NegInf \<Rightarrow> False | NaN \<Rightarrow> False)"

text \<open>\<open>a / b\<close> on numpy floats, for a finite \<open>a\<close>: no exception, an infinity or nan instead.\<close>

definition np_truediv :: "real \<Rightarrow> npfloat \<Rightarrow> npfloat" where
  "np_truediv a b =
     (case b of
        Fin y \<Rightarrow> (if y = 0 then (if a = 0 then NaN else if 0 < a then PosInf else NegInf)
                  else Fin (a / y))
      | PosInf \<Rightarrow> Fin 0
      | NegInf \<Rightarrow> Fin 0
      | NaN \<Rightarrow> NaN)"

record forecast_response =
  forecast_rows :: "forecast_row list"
  current_inventory :: real
  average_daily_demand :: npfloat
  reorder_point :: npfloat
  days_until_stockout :: npfloat

definition get_forecast :: "real list \<Rightarrow> forecast_row list \<Rightarrow> nat \<Rightarrow> error + forecast_response" where
  "get_forecast inventory_level forecast forecast_days =
     (if inventory_level = [] then Inl (HTTPException 500)
      else
        let latest_inventory = last inventory_level;
            avg = np_mean (map yhat (pd_tail forecast_days forecast));
            lead_time = 7
        in Inr \<lparr> forecast_rows = pd_tail forecast_days forecast,
                 current_inventory = latest_inventory,
                 average_daily_demand = avg,
                 reorder_point =
                   calculate_reorder_point (map yhat (pd_tail forecast_days forecast))
                     lead_time default_safety_stock_factor,
                 days_until_stockout =
                   (if np_gt_zero avg then np_truediv latest_inventory avg else PosInf) \<rparr>)"

section \<open>Dummy forecast of the forecast page\<close>









section \<open>The Alert component\<close>

text \<open>
  \<^verbatim>\<open>
  export function Alert({ children, variant = 'default', className = '' }) {
    const variants = {
      default: 'bg-blue-50 text-blue-800',
      destructive: 'bg-red-50 text-red-800',
      success: 'bg-green-50 text-green-800',
      warning: 'bg-yellow-50 text-yellow-800'
    };
    return (
      <div className={`rounded-md p-4 ${variants[variant]} ${className}`}>
  \<close>
  \<open>variants\<close> is an object literal: the four properties are its own, and a read with
  any other key goes on to its prototype, \<open>Object.prototype\<close>, before it gives
  \<open>undefined\<close>.
\<close>

datatype jsval = JSString string | JSUndefined | JSInherited string

definition variants :: "(string \<times> string) list" where
  "variants =
     [(''default'', ''bg-blue-50 text-blue-800''),
      (''destructive'', ''bg-red-50 text-red-800''),
      (''success'', ''bg-green-50 text-green-800''),
      (''warning'', ''bg-yellow-50 text-yellow-800'')]"

text \<open>The property names every object inherits from \<open>Object.prototype\<close>.\<close>

definition Object_prototype_names :: "string list" where
  "Object_prototype_names =
     [''constructor'', ''hasOwnProperty'', ''isPrototypeOf'', ''propertyIsEnumerable'',
      ''toLocaleString'', ''toString'', ''valueOf'', ''__proto__'',
      ''__defineGetter__'', ''__defineSetter__'', ''__lookupGetter__'', ''__lookupSetter__'']"

text \<open>\<open>variants[variant]\<close> for a string \<open>variant\<close>.\<close>

definition variants_lookup :: "string \<Rightarrow> jsval" where
  "variants_lookup variant =
     (case map_of variants variant of
        Some style \<Rightarrow> JSString style
      | None \<Rightarrow> if variant \<in> set Object_prototype_names then JSInherited variant
                else JSUndefined)"

text \<open>
  The text a template literal puts for a value. The text of an inherited member (a native
  function, or the prototype object for \<open>__proto__\<close>) is the engine's, taken as the
  parameter \<open>inherited_text\<close>.
\<close>

definition template_text :: "(string \<Rightarrow> string) \<Rightarrow> jsval \<Rightarrow> string" where
  "template_text inherited_text v =
     (case v of
        JSString s \<Rightarrow> s
      | JSUndefined \<Rightarrow> ''undefined''
      | JSInherited name \<Rightarrow> inherited_text name)"

text \<open>
  The \<open>className\<close> of the rendered \<open>div\<close>. A property that is not passed is
  \<open>None\<close> and takes the default of the parameter list.
\<close>

definition Alert_className :: "(string \<Rightarrow> string) \<Rightarrow> string option \<Rightarrow> string option \<Rightarrow> string" where
  "Alert_className inherited_text variant className =
     ''rounded-md p-4 ''
       @ template_text inherited_text
           (variants_lookup (case variant of None \<Rightarrow> ''default'' | Some v \<Rightarrow> v))
       @ '' '' @ (case className of None \<Rightarrow> [] | Some c \<Rightarrow> c)"

text \<open>\<open>s.includes(t)\<close>: the string \<open>t\<close> occurs in \<open>s\<close>.\<close>

fun starts_with :: "string \<Rightarrow> string \<Rightarrow> bool" where
  "starts_with s [] = True"
| "starts_with [] (c # t) = False"
| "starts_with (d # s) (c # t) = (d = c \<and> starts_with s t)"

fun contains :: "string \<Rightarrow> string \<Rightarrow> bool" where
  "contains [] t = (t = [])"
| "contains (d # s) t = (starts_with (d # s) t \<or> contains s t)"

section \<open>Status styles of the analytics page\<close>

text \<open>
  \<^verbatim>\<open>
  const getStatusStyle = (status) => {
    if (status === "Reorder needed") {
      return "bg-red-100 text-red-800 border-red-200";
    } else if (status === "Stock sufficient") {
      return "bg-green-100 text-green-800 border-green-200";
    } else if (status === "Out of Stock") {
      return "bg-red-500 text-white border-red-600";
    } else {
      return "bg-blue-100 text-blue-800 border-blue-200";
    }
  };
  \<close>
\<close>

definition getStatusStyle :: "string \<Rightarrow> string" where
  "getStatusStyle status =
     (if status = ''Reorder needed'' then ''bg-red-100 text-red-800 border-red-200''
      else if status = ''Stock sufficient'' then ''bg-green-100 text-green-800 border-green-200''
      else if status = ''Out of Stock'' then ''bg-red-500 text-white border-red-600''
      else ''bg-blue-100 text-blue-800 border-blue-200'')"

section \<open>Operations modelled from the specification\<close>

text \<open>
  The backend that blends the forecasts and evaluates a stock level is not among the
  sources: only the pages that display its answers are. The two operations below follow the
  specification.
\<close>

record point =
  on_date :: nat
  mean :: real
  lower_bound :: real
  upper_bound :: real

record ReconciledForecast =
  points :: "point list"
  component_forecasts :: "(string \<times> point list) list"

text \<open>
  Weights are normalised by their sum; when every weight is zero the fallback is the equal
  weight.
\<close>

definition normalized_weight :: "string list \<Rightarrow> (string \<Rightarrow> real) \<Rightarrow> string \<Rightarrow> real" where
  "normalized_weight names weights name =
     (let total = sum_list (map weights names)
      in if total = 0 then 1 / real (length names) else weights name / total)"

definition weighted_sum :: "(string \<times> point list) list \<Rightarrow> (string \<Rightarrow> real) \<Rightarrow> (point \<Rightarrow> real) \<Rightarrow> nat \<Rightarrow> real" where
  "weighted_sum components w field i =
     sum_list (map (\<lambda>(name, f). w name * field (f ! i)) components)"

text \<open>
  Modelled from the spec: \<open>EnsembleForecaster.combine\<close>, whose code is missing from the
  sources. The component forecasts are a mapping from model name to forecast, here a list of
  pairs with distinct names. All horizons must carry the same dates in the same order, else
  \<open>HorizonMismatchError\<close>; per date the reconciled mean and bounds are the weighted sums of
  the components' means and bounds.
\<close>

definition combine :: "(string \<times> point list) list \<Rightarrow> (string \<Rightarrow> real) \<Rightarrow> error + ReconciledForecast" where
  "combine components weights =
     (case components of
        [] \<Rightarrow> Inl NoViableForecastError
      | (_, first) # rest \<Rightarrow>
          if list_ex (\<lambda>(name, f). weights name < 0) components then Inl InputValidationError
          else if list_ex (\<lambda>(name, f). map on_date f \<noteq> map on_date first) rest
          then Inl HorizonMismatchError
          else
            let w = normalized_weight (map fst components) weights
            in Inr \<lparr> points =
                       map (\<lambda>i. \<lparr> on_date = on_date (first ! i),
                                   mean = weighted_sum components w mean i,
                                   lower_bound = weighted_sum components w lower_bound i,
                                   upper_bound = weighted_sum components w upper_bound i \<rparr>)
                         [0..<length first],
                     component_forecasts = components \<rparr>)"

datatype status = Sufficient | ReorderNeeded | OutOfStock

datatype stockout = Days real | Unbounded

record ReorderRecommendation =
  rr_current_stock :: real
  rr_reorder_point :: real
  rr_safety_stock :: real
  rr_optimal_order_quantity :: "real option"
  rr_average_daily_demand :: real
  rr_days_until_stockout :: stockout
  rr_status :: status

text \<open>
  Modelled from the spec: \<open>InventoryOptimizer.evaluate\<close>, whose code is missing from the
  sources. The reorder point is the one \<open>calculate_reorder_point\<close> computes on the forecast
  means; the order quantity is the one of \<open>calculate_eoq\<close> when cost parameters
  (annual demand, ordering cost, holding cost rate, unit cost) are given, and is left out
  when they are invalid; the average daily demand is taken over the whole horizon;
  status = OutOfStock if current_stock == 0; ReorderNeeded if current_stock <= reorder_point;
  else Sufficient.
\<close>

definition evaluate ::
  "real \<Rightarrow> point list \<Rightarrow> nat \<Rightarrow> real \<Rightarrow> (real \<times> real \<times> real \<times> real) option
     \<Rightarrow> error + ReorderRecommendation" where
  "evaluate current_stock forecast lead_time_days safety_factor cost_params =
     (if current_stock < 0 \<or> lead_time_days = 0 \<or> safety_factor < 0
      then Inl InputValidationError
      else if length forecast < lead_time_days then Inl InsufficientHorizonError
      else
        case calculate_reorder_point (map mean forecast) lead_time_days safety_factor of
          Fin rp \<Rightarrow>
            let avg = mean_of (map mean forecast)
            in Inr \<lparr> rr_current_stock = current_stock,
                     rr_reorder_point = rp,
                     rr_safety_stock =
                       safety_factor * population_std (take lead_time_days (map mean forecast))
                         * sqrt (real lead_time_days),
                     rr_optimal_order_quantity =
                       (case cost_params of
                          None \<Rightarrow> None
                        | Some (d, s, r, u) \<Rightarrow>
                            (case calculate_eoq d s r u of
                               Inr (PyFloat q) \<Rightarrow> Some q
                             | _ \<Rightarrow> None)),
                     rr_average_daily_demand = avg,
                     rr_days_until_stockout =
                       (if 0 < avg then Days (current_stock / avg) else Unbounded),
                     rr_status =
                       (if current_stock = 0 then OutOfStock
                        else if current_stock \<le> rp then ReorderNeeded
                        else Sufficient) \<rparr>
        | _ \<Rightarrow> Inl InsufficientHorizonError)"

text \<open>The text of a status on the analytics page.\<close>

definition status_label :: "status \<Rightarrow> string" where
  "status_label st =
     (case st of
        ReorderNeeded \<Rightarrow> ''Reorder needed''
      | Sufficient \<Rightarrow> ''Stock sufficient''
      | OutOfStock \<Rightarrow> ''Out of Stock'')"

section \<open>Auxiliary notions of the proofs\<close>

text \<open>The sum of the squared deviations of a list from a centre \<open>c\<close>.\<close>

definition sq_dev :: "real \<Rightarrow> real list \<Rightarrow> real" where
  "sq_dev c xs = sum_list (map (\<lambda>x. (x - c)\<^sup>2) xs)"

text \<open>\<open>a <= b\<close> on floats: false as soon as one side is nan.\<close>

definition np_le :: "npfloat \<Rightarrow> npfloat \<Rightarrow> bool" where
  "np_le a b =
     (case (a, b) of
        (NaN, _) \<Rightarrow> False
      | (_, NaN) \<Rightarrow> False
      | (NegInf, _) \<Rightarrow> True
      | (_, PosInf) \<Rightarrow> True
      | (Fin x, Fin y) \<Rightarrow> x \<le> y
      | (_, _) \<Rightarrow> False)"

section \<open>Properties of the reorder point\<close>

lemma take_nonempty: "0 < n \<Longrightarrow> n \<le> length xs \<Longrightarrow> take n xs \<noteq> []"
  by (cases xs) auto

lemma calculate_reorder_point_window:
  assumes "0 < lead_time" "lead_time \<le> length forecast"
  shows "calculate_reorder_point forecast lead_time safety_stock_factor =
         Fin (mean_of (take lead_time forecast) * real lead_time
              + safety_stock_factor * population_std (take lead_time forecast)
                  * sqrt (real lead_time))"
  using take_nonempty [OF assms]
  by (simp add: calculate_reorder_point_def np_mean_def np_std_def population_std_def mean_of_def)

lemma sqrt_2_neq_2: "sqrt 2 \<noteq> (2::real)"
proof
  assume "sqrt 2 = (2::real)"
  then have "(sqrt 2)\<^sup>2 = (2::real)\<^sup>2" by simp
  then show False by simp
qed

text \<open>
  C1 (amended). For every forecast and every lead_time_days > 0 not exceeding the forecast
  length, the reorder point is average_daily_demand * lead_time_days + safety_stock, where
  average_daily_demand is the mean of the first lead_time_days forecast values,
  safety_stock = safety_factor * demand_std * sqrt(lead_time_days), and demand_std is the
  population standard deviation (N denominator, numpy's default) of that same window. For
  30 days of constant demand 10, lead_time_days = 7 and safety_factor = 1.5 it is exactly 70.
\<close>

theorem C1_reorder_point_population_std:
  assumes "0 < lead_time_days" and "lead_time_days \<le> length forecast"
  shows "calculate_reorder_point forecast lead_time_days safety_factor =
           Fin (mean_of (take lead_time_days forecast) * real lead_time_days
                + safety_factor * population_std (take lead_time_days forecast)
                    * sqrt (real lead_time_days)) \<and>
         calculate_reorder_point (replicate 30 10) 7 (15 / 10) = Fin 70"
proof
  show "calculate_reorder_point forecast lead_time_days safety_factor =
           Fin (mean_of (take lead_time_days forecast) * real lead_time_days
                + safety_factor * population_std (take lead_time_days forecast)
                    * sqrt (real lead_time_days))"
    using assms by (rule calculate_reorder_point_window)
  show "calculate_reorder_point (replicate 30 10) 7 (15 / 10) = Fin 70"
    by (simp add: calculate_reorder_point_def np_mean_def np_std_def mean_of_def numeral_eq_Suc)
qed

theorem C1_reorder_point_population_std_witness:
  "(0::nat) < 2 \<and> 2 \<le> length [0, 2 :: real] \<and>
   calculate_reorder_point [0, 2] 2 1 = Fin (2 + sqrt 2)"
  using C1_reorder_point_population_std [of 2 "[0, 2]" 1]
  by (simp add: mean_of_def population_std_def)

text \<open>
  With the sample standard deviation (N - 1 denominator) of the specification the formula
  gives 4 on the two-day forecast 0, 2 with lead time 2 and safety factor 1; the code
  returns 2 + sqrt 2.
\<close>

theorem C1_sample_std_counterexample:
  "calculate_reorder_point [0, 2] 2 1 = Fin (2 + sqrt 2) \<and>
   spec_reorder_point [0, 2] 2 1 = 4 \<and>
   calculate_reorder_point [0, 2] 2 1 \<noteq> Fin (spec_reorder_point [0, 2] 2 1)"
  using sqrt_2_neq_2
  by (simp add: calculate_reorder_point_def np_mean_def np_std_def mean_of_def
        spec_reorder_point_def sample_std_def)

text \<open>
  C6. On a window of a single forecast entry (lead_time_days = 1) the deviation is 0, so the
  safety stock is 0 and the reorder point is that day's forecast value: a real number, not
  nan.
\<close>

theorem C6_single_point_window:
  "np_std (take 1 (x # rest)) = Fin 0 \<and>
   calculate_reorder_point (x # rest) 1 safety_factor = Fin x"
  by (simp add: calculate_reorder_point_def np_mean_def np_std_def mean_of_def)

theorem C6_single_point_window_witness:
  "np_std (take 1 [12, 30]) = Fin 0 \<and> calculate_reorder_point [12, 30] 1 (3 / 2) = Fin 12"
  using C6_single_point_window [of 12 "[30]" "3 / 2"] by simp

subsection \<open>Monotonicity\<close>

lemma sq_dev_expand:
  "sq_dev c xs =
     sum_list (map (\<lambda>x. x\<^sup>2) xs) - 2 * c * sum_list xs + real (length xs) * c\<^sup>2"
  by (induction xs) (simp_all add: sq_dev_def power2_eq_square algebra_simps)

lemma sq_dev_nonneg: "0 \<le> sq_dev c xs"
  by (induction xs) (simp_all add: sq_dev_def)

lemma sq_dev_append: "sq_dev c (xs @ ys) = sq_dev c xs + sq_dev c ys"
  by (simp add: sq_dev_def)

text \<open>The mean is the centre with the least sum of squared deviations.\<close>

lemma sq_dev_mean_le:
  assumes "xs \<noteq> []"
  shows "sq_dev (mean_of xs) xs \<le> sq_dev c xs"
proof -
  define n where "n = real (length xs)"
  define S where "S = sum_list xs"
  have n: "0 < n" using assms by (simp add: n_def)
  have "sq_dev c xs - sq_dev (S / n) xs =
          n * c\<^sup>2 - 2 * c * S - (n * (S / n)\<^sup>2 - 2 * (S / n) * S)"
    by (simp add: sq_dev_expand n_def S_def)
  also have "\<dots> = (n * c - S)\<^sup>2 / n"
    using n by (simp add: power2_eq_square field_simps)
  also have "0 \<le> \<dots>" using n by simp
  finally show ?thesis by (simp add: mean_of_def n_def S_def)
qed

lemma take_split: "m \<le> n \<Longrightarrow> take n xs = take m xs @ take (n - m) (drop m xs)"
  by (metis le_add_diff_inverse take_add)

text \<open>A longer window never has a smaller sum of squared deviations from its own mean.\<close>

lemma sq_dev_take_mono:
  assumes "0 < m" "m \<le> n" "n \<le> length xs"
  shows "sq_dev (mean_of (take m xs)) (take m xs) \<le> sq_dev (mean_of (take n xs)) (take n xs)"
proof -
  have ne: "take m xs \<noteq> []" using assms by (intro take_nonempty) simp_all
  have "sq_dev (mean_of (take m xs)) (take m xs) \<le> sq_dev (mean_of (take n xs)) (take m xs)"
    using ne by (rule sq_dev_mean_le)
  also have "\<dots> \<le> sq_dev (mean_of (take n xs)) (take m xs)
                 + sq_dev (mean_of (take n xs)) (take (n - m) (drop m xs))"
    using sq_dev_nonneg [of "mean_of (take n xs)" "take (n - m) (drop m xs)"] by simp
  also have "\<dots> = sq_dev (mean_of (take n xs)) (take n xs)"
    by (subst (3) take_split [OF assms(2)]) (simp only: sq_dev_append)
  finally show ?thesis .
qed

lemma sum_list_take_mono:
  assumes "\<forall>x\<in>set xs. (0::real) \<le> x" "m \<le> n"
  shows "sum_list (take m xs) \<le> sum_list (take n xs)"
proof -
  have "\<forall>x\<in>set (take (n - m) (drop m xs)). 0 \<le> x"
    using assms(1) by (meson in_set_dropD in_set_takeD)
  then have "0 \<le> sum_list (take (n - m) (drop m xs))"
    by (simp add: sum_list_nonneg)
  then show ?thesis by (subst take_split [OF assms(2)]) simp
qed

lemma std_times_sqrt:
  assumes "xs \<noteq> []"
  shows "population_std xs * sqrt (real (length xs)) = sqrt (sq_dev (mean_of xs) xs)"
proof -
  have "0 < real (length xs)" using assms by simp
  then show ?thesis
    by (simp add: population_std_def sq_dev_def real_sqrt_mult [symmetric])
qed

lemma mean_times_length:
  assumes "xs \<noteq> []"
  shows "mean_of xs * real (length xs) = sum_list xs"
  using assms by (simp add: mean_of_def)

text \<open>
  The reorder point is the demand summed over the window plus the safety factor times the
  root of the window's sum of squared deviations.
\<close>

lemma calculate_reorder_point_sums:
  assumes "0 < lead_time" "lead_time \<le> length forecast"
  shows "calculate_reorder_point forecast lead_time sf =
         Fin (sum_list (take lead_time forecast)
              + sf * sqrt (sq_dev (mean_of (take lead_time forecast)) (take lead_time forecast)))"
proof -
  let ?w = "take lead_time forecast"
  have ne: "?w \<noteq> []" using assms by (rule take_nonempty)
  have len: "length ?w = lead_time" using assms(2) by simp
  have "calculate_reorder_point forecast lead_time sf =
        Fin (mean_of ?w * real (length ?w) + sf * (population_std ?w * sqrt (real (length ?w))))"
    unfolding len using assms by (simp add: calculate_reorder_point_window)
  then show ?thesis
    by (simp only: std_times_sqrt [OF ne] mean_times_length [OF ne])
qed

lemma np_le_Fin: "np_le (Fin x) (Fin y) = (x \<le> y)"
  by (simp add: np_le_def)

text \<open>
  C8. Holding the other inputs fixed, the reorder point is non-decreasing in the safety
  factor and non-decreasing in the lead time, for every forecast of non-negative demands
  that covers both lead times.
\<close>

theorem C8_reorder_point_monotone:
  assumes "\<forall>x\<in>set forecast. 0 \<le> x"
    and "0 < lead_time" and "lead_time \<le> lead_time'" and "lead_time' \<le> length forecast"
    and "0 \<le> safety_factor" and "safety_factor \<le> safety_factor'"
  shows "np_le (calculate_reorder_point forecast lead_time safety_factor)
               (calculate_reorder_point forecast lead_time safety_factor') \<and>
         np_le (calculate_reorder_point forecast lead_time safety_factor)
               (calculate_reorder_point forecast lead_time' safety_factor)"
proof
  have l: "lead_time \<le> length forecast" using assms(3,4) by simp
  have l': "0 < lead_time'" using assms(2,3) by simp
  let ?d = "sq_dev (mean_of (take lead_time forecast)) (take lead_time forecast)"
  let ?d' = "sq_dev (mean_of (take lead_time' forecast)) (take lead_time' forecast)"
  have "safety_factor * sqrt ?d \<le> safety_factor' * sqrt ?d"
    using assms(6) sq_dev_nonneg [of "mean_of (take lead_time forecast)" "take lead_time forecast"]
    by (simp add: mult_right_mono)
  then show "np_le (calculate_reorder_point forecast lead_time safety_factor)
               (calculate_reorder_point forecast lead_time safety_factor')"
    by (simp add: calculate_reorder_point_sums [OF assms(2) l] np_le_Fin)
  have "?d \<le> ?d'" using assms(2,3,4) by (rule sq_dev_take_mono)
  then have "sqrt ?d \<le> sqrt ?d'" by simp
  then have "safety_factor * sqrt ?d \<le> safety_factor * sqrt ?d'"
    using assms(5) by (rule mult_left_mono)
  moreover have "sum_list (take lead_time forecast) \<le> sum_list (take lead_time' forecast)"
    using assms(1,3) by (rule sum_list_take_mono)
  ultimately show "np_le (calculate_reorder_point forecast lead_time safety_factor)
               (calculate_reorder_point forecast lead_time' safety_factor)"
    by (simp add: calculate_reorder_point_sums [OF assms(2) l]
          calculate_reorder_point_sums [OF l' assms(4)] np_le_Fin)
qed

theorem C8_reorder_point_monotone_witness:
  "(0::real) \<le> 1 \<and> (0::real) \<le> 2 \<and> (0::real) \<le> 3 \<and> (0::nat) < 1 \<and> (1::nat) \<le> 2 \<and>
   2 \<le> length [1, 2, 3 :: real] \<and> (1::real) \<le> 2 \<and>
   np_le (calculate_reorder_point [1, 2, 3] 1 1) (calculate_reorder_point [1, 2, 3] 1 2) \<and>
   np_le (calculate_reorder_point [1, 2, 3] 1 1) (calculate_reorder_point [1, 2, 3] 2 1)"
  using C8_reorder_point_monotone [of "[1, 2, 3]" 1 2 1 2] by simp

section \<open>Properties of the economic order quantity\<close>

lemma calculate_eoq_pos:
  assumes "0 \<le> annual_demand" "0 \<le> ordering_cost" "0 < holding_cost_percentage * unit_cost"
  shows "calculate_eoq annual_demand ordering_cost holding_cost_percentage unit_cost =
         Inr (PyFloat (sqrt (2 * annual_demand * ordering_cost /
                              (holding_cost_percentage * unit_cost))))"
proof -
  have nz: "holding_cost_percentage * unit_cost \<noteq> 0"
    using assms(3) by linarith
  have "0 \<le> 2 * annual_demand * ordering_cost"
    using assms(1,2) by simp
  then have "0 \<le> 2 * annual_demand * ordering_cost / (holding_cost_percentage * unit_cost)"
    using assms(3) by (rule divide_nonneg_pos)
  then have "py_pow_half (2 * annual_demand * ordering_cost /
                           (holding_cost_percentage * unit_cost)) =
             PyFloat (sqrt (2 * annual_demand * ordering_cost /
                              (holding_cost_percentage * unit_cost)))"
    unfolding py_pow_half_def by (simp only: not_less [symmetric] if_False)
  then show ?thesis
    using nz unfolding calculate_eoq_def py_truediv_def Let_def by (simp only: if_False sum.case)
qed

lemma sqrt_60000_near: "\<bar>sqrt 60000 - 244.95\<bar> \<le> (0.01::real)"
proof -
  have lo: "(244.94::real) \<le> sqrt 60000"
    by (rule real_le_rsqrt) (simp add: power2_eq_square)
  have hi: "sqrt 60000 \<le> (244.96::real)"
    by (rule real_le_lsqrt) (simp_all add: power2_eq_square)
  from lo hi show ?thesis by linarith
qed

text \<open>
  C2. For annual_demand \<ge> 0, ordering_cost \<ge> 0, holding_cost_rate in [0,1] and
  unit_cost > 0 with holding_cost = holding_cost_rate * unit_cost > 0, the economic order
  quantity is the float sqrt(2 * annual_demand * ordering_cost / holding_cost); it is 0
  when annual_demand = 0; and for annual_demand = 1200, ordering_cost = 50,
  holding_cost_rate = 0.2, unit_cost = 10 it is within 0.01 of 244.95.
\<close>

theorem C2_eoq_formula:
  assumes "0 \<le> annual_demand" and "0 \<le> ordering_cost"
    and "0 \<le> holding_cost_rate" and "holding_cost_rate \<le> 1" and "0 < unit_cost"
    and "0 < holding_cost_rate * unit_cost"
  shows "calculate_eoq annual_demand ordering_cost holding_cost_rate unit_cost =
           Inr (PyFloat (sqrt (2 * annual_demand * ordering_cost /
                                (holding_cost_rate * unit_cost)))) \<and>
         calculate_eoq 0 ordering_cost holding_cost_rate unit_cost = Inr (PyFloat 0) \<and>
         (\<exists>q. calculate_eoq 1200 50 (2 / 10) 10 = Inr (PyFloat q) \<and> \<bar>q - 244.95\<bar> \<le> 0.01)"
proof (intro conjI)
  show "calculate_eoq annual_demand ordering_cost holding_cost_rate unit_cost =
           Inr (PyFloat (sqrt (2 * annual_demand * ordering_cost /
                                (holding_cost_rate * unit_cost))))"
    using assms(1,2,6) by (rule calculate_eoq_pos)
  have "calculate_eoq 0 ordering_cost holding_cost_rate unit_cost =
          Inr (PyFloat (sqrt (2 * 0 * ordering_cost / (holding_cost_rate * unit_cost))))"
    using assms(2,6) by (intro calculate_eoq_pos) simp_all
  then show "calculate_eoq 0 ordering_cost holding_cost_rate unit_cost = Inr (PyFloat 0)"
    by simp
  have "calculate_eoq 1200 50 (2 / 10) 10 =
          Inr (PyFloat (sqrt (2 * 1200 * 50 / ((2 / 10) * 10))))"
    by (intro calculate_eoq_pos) simp_all
  then have "calculate_eoq 1200 50 (2 / 10) 10 = Inr (PyFloat (sqrt 60000))"
    by simp
  with sqrt_60000_near
  show "\<exists>q. calculate_eoq 1200 50 (2 / 10) 10 = Inr (PyFloat q) \<and> \<bar>q - 244.95\<bar> \<le> 0.01"
    by blast
qed

theorem C2_eoq_formula_witness:
  "(0::real) \<le> 1200 \<and> (0::real) \<le> 50 \<and> (0::real) \<le> 2 / 10 \<and> (2 / 10 :: real) \<le> 1 \<and>
   (0::real) < 10 \<and> (0::real) < 2 / 10 * 10 \<and>
   calculate_eoq 1200 50 (2 / 10) 10 = Inr (PyFloat (sqrt 60000)) \<and>
   calculate_eoq 0 50 (2 / 10) 10 = Inr (PyFloat 0)"
  using C2_eoq_formula [of 1200 50 "2 / 10" 10]
  by simp

text \<open>
  C3 (amended). The economic order quantity yields no numeric result exactly when
  holding_cost = holding_cost_rate * unit_cost is zero, which includes holding_cost_rate = 0:
  the unguarded division raises ZeroDivisionError. The code has no
  InvalidCostParametersError, and a holding cost other than zero is not rejected.
\<close>

theorem C3_eoq_zero_holding_cost:
  "(holding_cost_rate * unit_cost = 0 \<longrightarrow>
      calculate_eoq annual_demand ordering_cost holding_cost_rate unit_cost =
        Inl ZeroDivisionError) \<and>
   (holding_cost_rate = 0 \<longrightarrow>
      calculate_eoq annual_demand ordering_cost holding_cost_rate unit_cost =
        Inl ZeroDivisionError) \<and>
   (holding_cost_rate * unit_cost \<noteq> 0 \<longrightarrow>
      (\<exists>v. calculate_eoq annual_demand ordering_cost holding_cost_rate unit_cost = Inr v))"
  by (simp add: calculate_eoq_def py_truediv_def Let_def)

theorem C3_eoq_zero_holding_cost_witness:
  "(0::real) * 10 = 0 \<and> calculate_eoq 1200 50 0 10 = Inl ZeroDivisionError \<and>
   (- 1 :: real) * 10 \<noteq> 0 \<and> (\<exists>v. calculate_eoq 1200 50 (- 1) 10 = Inr v)"
  using C3_eoq_zero_holding_cost [of 0 10 1200 50]
    C3_eoq_zero_holding_cost [of "- 1" 10 1200 50]
  by simp

text \<open>
  With holding_cost_rate = 0 (so holding_cost = 0, which is \<le> 0) the division by zero is
  performed and its error is the result, not the InvalidCostParametersError.
\<close>

theorem C3_invalid_cost_counterexample:
  "(0::real) * 10 \<le> 0 \<and>
   calculate_eoq 1200 50 0 10 = Inl ZeroDivisionError \<and>
   calculate_eoq 1200 50 0 10 \<noteq> Inl InvalidCostParametersError"
  by (simp add: calculate_eoq_def py_truediv_def)

section \<open>Properties of the forecast endpoint\<close>

text \<open>
  C4. Whenever the product has inventory rows, the forecast operation answers, and its
  days_until_stockout is current stock / average_daily_demand when the average daily demand
  is greater than 0, and the sentinel for "unbounded" (the float inf written in the code)
  otherwise, also when the average is nan. It is never nan, the division is only done by a
  positive divisor, and the sentinel only comes from the branch that does not divide.
\<close>

theorem C4_days_until_stockout:
  assumes "inventory_level \<noteq> []"
  shows "\<exists>resp. get_forecast inventory_level forecast forecast_days = Inr resp \<and>
           current_inventory resp = last inventory_level \<and>
           average_daily_demand resp = np_mean (map yhat (pd_tail forecast_days forecast)) \<and>
           (case average_daily_demand resp of
              Fin a \<Rightarrow> days_until_stockout resp =
                         (if 0 < a then Fin (current_inventory resp / a) else PosInf)
            | _ \<Rightarrow> days_until_stockout resp = PosInf) \<and>
           (days_until_stockout resp = PosInf) = (\<not> np_gt_zero (average_daily_demand resp)) \<and>
           days_until_stockout resp \<noteq> NaN \<and> days_until_stockout resp \<noteq> NegInf"
  using assms
  by (auto simp: get_forecast_def Let_def np_gt_zero_def np_truediv_def np_mean_def
           split: npfloat.splits)

theorem C4_days_until_stockout_witness:
  "[40 :: real] \<noteq> [] \<and>
   (\<exists>resp. get_forecast [40]
             [\<lparr>ds = 0, yhat = 0, yhat_lower = 0, yhat_upper = 0\<rparr>] 1 = Inr resp \<and>
           average_daily_demand resp = Fin 0 \<and> days_until_stockout resp = PosInf) \<and>
   (\<exists>resp. get_forecast [40]
             [\<lparr>ds = 0, yhat = 8, yhat_lower = 6, yhat_upper = 10\<rparr>] 1 = Inr resp \<and>
           average_daily_demand resp = Fin 8 \<and> days_until_stockout resp = Fin 5)"
  using C4_days_until_stockout
          [of "[40]" "[\<lparr>ds = 0, yhat = 0, yhat_lower = 0, yhat_upper = 0\<rparr>]" 1]
        C4_days_until_stockout
          [of "[40]" "[\<lparr>ds = 0, yhat = 8, yhat_lower = 6, yhat_upper = 10\<rparr>]" 1]
  by (auto simp: np_mean_def pd_tail_def mean_of_def)

section \<open>Properties of the forecasts the program produces\<close>













section \<open>Properties of the operations modelled from the specification\<close>

lemma status_styles:
  "getStatusStyle (status_label ReorderNeeded) = ''bg-red-100 text-red-800 border-red-200'' \<and>
   getStatusStyle (status_label Sufficient) = ''bg-green-100 text-green-800 border-green-200'' \<and>
   getStatusStyle (status_label OutOfStock) = ''bg-red-500 text-white border-red-600''"
  by (simp add: getStatusStyle_def status_label_def)

text \<open>The evaluation answers on every valid input whose horizon covers the lead time.\<close>

lemma evaluate_returns:
  assumes "0 \<le> current_stock" "0 < lead_time_days" "lead_time_days \<le> length forecast"
    and "0 \<le> safety_factor"
  shows "\<exists>r. evaluate current_stock forecast lead_time_days safety_factor cost_params = Inr r"
proof -
  have "take lead_time_days (map mean forecast) \<noteq> []"
    using assms(2,3) by (intro take_nonempty) simp_all
  then show ?thesis using assms
    by (simp add: evaluate_def calculate_reorder_point_def np_mean_def np_std_def Let_def)
qed

text \<open>
  C5. For every recommendation produced by evaluate, the status is determined by
  current_stock and reorder_point alone: OutOfStock if current_stock = 0 (whatever the
  forecast), ReorderNeeded if 0 < current_stock \<le> reorder_point, Sufficient otherwise; and
  these are the only three status values.
\<close>

theorem C5_status_rule:
  assumes "evaluate current_stock forecast lead_time_days safety_factor cost_params = Inr r"
  shows "rr_current_stock r = current_stock \<and>
         rr_status r =
           (if rr_current_stock r = 0 then OutOfStock
            else if 0 < rr_current_stock r \<and> rr_current_stock r \<le> rr_reorder_point r
                 then ReorderNeeded
            else Sufficient) \<and>
         (current_stock = 0 \<longrightarrow> rr_status r = OutOfStock) \<and>
         rr_status r \<in> {OutOfStock, ReorderNeeded, Sufficient}"
  using assms
  by (auto simp: evaluate_def Let_def split: if_splits npfloat.splits)

lemma evaluate_example:
  "evaluate 0 [\<lparr>on_date = 0, mean = 10, lower_bound = 8, upper_bound = 12\<rparr>] 1 1 None =
     Inr \<lparr> rr_current_stock = 0, rr_reorder_point = 10, rr_safety_stock = 0,
           rr_optimal_order_quantity = None, rr_average_daily_demand = 10,
           rr_days_until_stockout = Days 0, rr_status = OutOfStock \<rparr>"
  by (simp add: evaluate_def calculate_reorder_point_def np_mean_def np_std_def mean_of_def
        population_std_def Let_def)

theorem C5_status_rule_witness:
  "evaluate 0 [\<lparr>on_date = 0, mean = 10, lower_bound = 8, upper_bound = 12\<rparr>] 1 1 None =
     Inr \<lparr> rr_current_stock = 0, rr_reorder_point = 10, rr_safety_stock = 0,
           rr_optimal_order_quantity = None, rr_average_daily_demand = 10,
           rr_days_until_stockout = Days 0, rr_status = OutOfStock \<rparr> \<and>
   rr_status \<lparr> rr_current_stock = 0, rr_reorder_point = 10, rr_safety_stock = 0,
           rr_optimal_order_quantity = None, rr_average_daily_demand = 10,
           rr_days_until_stockout = Days 0, rr_status = OutOfStock \<rparr>
     \<in> {OutOfStock, ReorderNeeded, Sufficient}"
  using C5_status_rule [OF evaluate_example] evaluate_example
  by blast

text \<open>
  C9. For every forecast F, combining the two-component ensemble of m1 and m2, both mapped to
  F, with equal weights yields a reconciled forecast whose dates, means and bounds are those
  of F, with the two components kept.
\<close>

theorem C9_blend_identical:
  assumes "m1 \<noteq> m2" and "weights m1 = weights m2" and "0 \<le> weights m1"
  shows "combine [(m1, F), (m2, F)] weights =
           Inr \<lparr> points = F, component_forecasts = [(m1, F), (m2, F)] \<rparr>"
proof -
  have w: "normalized_weight [m1, m2] weights m1 = 1 / 2"
          "normalized_weight [m1, m2] weights m2 = 1 / 2"
    using assms(2) by (simp_all add: normalized_weight_def Let_def)
  have "map (\<lambda>i. \<lparr> on_date = on_date (F ! i),
                   mean = weighted_sum [(m1, F), (m2, F)]
                            (normalized_weight [m1, m2] weights) mean i,
                   lower_bound = weighted_sum [(m1, F), (m2, F)]
                            (normalized_weight [m1, m2] weights) lower_bound i,
                   upper_bound = weighted_sum [(m1, F), (m2, F)]
                            (normalized_weight [m1, m2] weights) upper_bound i \<rparr>)
          [0..<length F] = map (\<lambda>i. F ! i) [0..<length F]"
    by (rule map_cong) (simp_all add: weighted_sum_def w)
  also have "\<dots> = F" by (rule map_nth)
  finally show ?thesis
    using assms(2,3) by (simp add: combine_def Let_def)
qed

theorem C9_blend_identical_witness:
  "''prophet'' \<noteq> ''lstm'' \<and> (0::real) \<le> 1 / 2 \<and>
   combine [(''prophet'', [\<lparr>on_date = 1, mean = 10, lower_bound = 8, upper_bound = 13\<rparr>]),
            (''lstm'', [\<lparr>on_date = 1, mean = 10, lower_bound = 8, upper_bound = 13\<rparr>])]
           (\<lambda>_. 1 / 2) =
     Inr \<lparr> points = [\<lparr>on_date = 1, mean = 10, lower_bound = 8, upper_bound = 13\<rparr>],
           component_forecasts =
             [(''prophet'', [\<lparr>on_date = 1, mean = 10, lower_bound = 8, upper_bound = 13\<rparr>]),
              (''lstm'', [\<lparr>on_date = 1, mean = 10, lower_bound = 8, upper_bound = 13\<rparr>])] \<rparr>"
  using C9_blend_identical [of "''prophet''" "''lstm''" "\<lambda>_. 1 / 2"
          "[\<lparr>on_date = 1, mean = 10, lower_bound = 8, upper_bound = 13\<rparr>]"]
  by simp

section \<open>Properties of the Alert component\<close>

lemma starts_with_append: "starts_with (t @ post) t"
  by (induction t) simp_all

lemma contains_here: "contains (t @ post) t"
proof (cases "t @ post")
  case Nil
  then show ?thesis by simp
next
  case (Cons d s)
  have "starts_with (t @ post) t" by (rule starts_with_append)
  then have "starts_with (d # s) t" by (simp only: Cons)
  then show ?thesis by (simp add: Cons)
qed

lemma contains_middle: "contains (pre @ t @ post) t"
  by (induction pre) (simp_all add: contains_here)

text \<open>
  C10 (amended). For each of the four declared variants the lookup yields its style string.
  For any other variant string that is not the name of a member inherited from
  Object.prototype the lookup yields undefined, with no fallback to the default style, and
  the rendered class string contains "undefined"; for the name of an inherited member the
  lookup yields that member.
\<close>

theorem C10_alert_variants:
  "variants_lookup ''default'' = JSString ''bg-blue-50 text-blue-800'' \<and>
   variants_lookup ''destructive'' = JSString ''bg-red-50 text-red-800'' \<and>
   variants_lookup ''success'' = JSString ''bg-green-50 text-green-800'' \<and>
   variants_lookup ''warning'' = JSString ''bg-yellow-50 text-yellow-800'' \<and>
   (variant \<notin> {''default'', ''destructive'', ''success'', ''warning''} \<and>
    variant \<notin> set Object_prototype_names \<longrightarrow>
      variants_lookup variant = JSUndefined \<and>
      contains (Alert_className inherited_text (Some variant) className) ''undefined'') \<and>
   (variant \<in> set Object_prototype_names \<longrightarrow> variants_lookup variant = JSInherited variant)"
proof -
  have "contains (''rounded-md p-4 '' @ ''undefined'' @ '' '' @ c) ''undefined''" for c
    by (rule contains_middle)
  moreover have "variant \<in> set Object_prototype_names \<Longrightarrow> map_of variants variant = None"
    by (auto simp: Object_prototype_names_def variants_def)
  ultimately show ?thesis
    by (auto simp: variants_lookup_def variants_def Alert_className_def template_text_def)
qed

theorem C10_alert_variants_witness:
  "''info'' \<notin> {''default'', ''destructive'', ''success'', ''warning''} \<and>
   ''info'' \<notin> set Object_prototype_names \<and>
   variants_lookup ''info'' = JSUndefined \<and>
   contains (Alert_className (\<lambda>_. []) (Some ''info'') None) ''undefined'' \<and>
   ''toString'' \<in> set Object_prototype_names \<and>
   variants_lookup ''toString'' = JSInherited ''toString''"
  using C10_alert_variants [of "''info''" "\<lambda>_. []" None]
    C10_alert_variants [of "''toString''" "\<lambda>_. []" None]
  by (simp add: Object_prototype_names_def)

text \<open>
  The variant string "constructor" is none of the four declared variants, and its lookup is
  not undefined: it is the member every object inherits under that name.
\<close>

theorem C10_inherited_counterexample:
  "''constructor'' \<notin> {''default'', ''destructive'', ''success'', ''warning''} \<and>
   variants_lookup ''constructor'' = JSInherited ''constructor'' \<and>
   variants_lookup ''constructor'' \<noteq> JSUndefined"
  by (simp add: variants_lookup_def variants_def Object_prototype_names_def)

end
